theory Spec2Isabelle
  imports Main
begin

section \<open>Go values, errors and panics\<close>

text \<open>
  The pagination package passes page contents around as \<^verbatim>\<open>interface{}\<close> and inspects
  them with package \<^verbatim>\<open>reflect\<close>. A dynamic Go value is modelled by the datatype below.
  It covers the kinds the code can tell apart: the nil interface, scalars, arrays, slices,
  maps, structs, and a \<^verbatim>\<open>reflect.Value\<close> that has itself been stored in an interface
  (\<open>VReflectValue v\<close> is the struct \<^verbatim>\<open>reflect.Value\<close> that reflects \<open>v\<close>).
  Strings, pointers, channels and functions are left out.
\<close>

datatype val =
    VNil
  | VBool bool
  | VInt int
  | VArray "val list"
  | VSlice "val list"
  | VMap "(val \<times> val) list"
  | VStruct "(string \<times> val) list"
  | VReflectValue val

text \<open>The values of \<^verbatim>\<open>reflect.Kind\<close> for these values.\<close>

datatype kind =
    reflect_Invalid
  | reflect_Bool
  | reflect_Int
  | reflect_Array
  | reflect_Slice
  | reflect_Map
  | reflect_Struct

text \<open>
  Go's \<^verbatim>\<open>error\<close> values. The three sentinels are the package variables of the source
  (made with \<^verbatim>\<open>errors.New\<close>); \<open>Errorf msg\<close> is the result of \<^verbatim>\<open>fmt.Errorf\<close> without a
  \<^verbatim>\<open>%w\<close> verb and \<open>Wrapped msg e\<close> the result with one (\<open>msg\<close> the formatted text,
  \<open>e\<close> the wrapped error); \<open>ExternalError msg\<close> is an error made by code outside the
  repository (transport, URL parsing, JSON decoding, a caller's predicate).
\<close>

datatype error =
    ErrConditionNeverMet
  | ErrEnvMissing
  | ErrConfiguration
  | Errorf string
  | Wrapped string error
  | ExternalError string

text \<open>The method \<^verbatim>\<open>Error() string\<close>.\<close>

fun Error :: "error \<Rightarrow> string" where
  "Error ErrConditionNeverMet = ''looped all items and the condition was never met''"
| "Error ErrEnvMissing = ''environment variable missing''"
| "Error ErrConfiguration = ''could not configure client''"
| "Error (Errorf msg) = msg"
| "Error (Wrapped msg e) = msg"
| "Error (ExternalError msg) = msg"


text \<open>
  Panics. \<open>ValueError m k\<close> is \<^verbatim>\<open>&reflect.ValueError{Method: m, Kind: k}\<close>, which package
  reflect raises when method \<open>m\<close> is called on a \<^verbatim>\<open>Value\<close> of a kind it does not
  support. \<open>ContentNotSequence c\<close> is the panic of \<^verbatim>\<open>LoopUntil\<close>'s default branch, whose
  message prints the type of the content \<open>c\<close>.
\<close>

datatype panic =
    ValueError string kind
  | IndexOutOfRange
  | NilDereference
  | ContentNotSequence val
  | CloseOfClosedChannel
  | ExternalPanic string

text \<open>
  A call into code supplied by the caller (an interface method, a function value) either
  returns, panics, or never returns.
\<close>

datatype 'a call_result = Returns 'a | Panics panic | Blocks

section \<open>Package reflect\<close>

text \<open>
  \<^verbatim>\<open>reflect.Value\<close> is a struct type. \<open>RValue v\<close> is the \<^verbatim>\<open>Value\<close> that reflects the
  dynamic value \<open>v\<close>; the zero \<^verbatim>\<open>Value\<close> is \<open>RValue VNil\<close>.
\<close>

datatype rvalue = RValue val

text \<open>\<^verbatim>\<open>reflect.ValueOf(i interface{}) Value\<close>.\<close>

definition reflect_ValueOf :: "val \<Rightarrow> rvalue" where
  "reflect_ValueOf i = RValue i"

text \<open>
  A \<^verbatim>\<open>reflect.Value\<close> used where an \<^verbatim>\<open>interface{}\<close> is expected is boxed like any other
  struct: the interface then holds a value of dynamic type \<^verbatim>\<open>reflect.Value\<close>.
\<close>

fun as_interface :: "rvalue \<Rightarrow> val" where
  "as_interface (RValue v) = VReflectValue v"

text \<open>\<^verbatim>\<open>func (v Value) Kind() Kind\<close>. A boxed \<^verbatim>\<open>reflect.Value\<close> is a struct.\<close>

fun Kind :: "rvalue \<Rightarrow> kind" where
  "Kind (RValue VNil) = reflect_Invalid"
| "Kind (RValue (VBool b)) = reflect_Bool"
| "Kind (RValue (VInt i)) = reflect_Int"
| "Kind (RValue (VArray xs)) = reflect_Array"
| "Kind (RValue (VSlice xs)) = reflect_Slice"
| "Kind (RValue (VMap kvs)) = reflect_Map"
| "Kind (RValue (VStruct fs)) = reflect_Struct"
| "Kind (RValue (VReflectValue v)) = reflect_Struct"

text \<open>
  \<^verbatim>\<open>func (v Value) Len() int\<close>: "It panics if v's Kind is not Array, Chan, Map, Slice,
  String, or pointer to Array."
\<close>

fun Len :: "rvalue \<Rightarrow> panic + nat" where
  "Len (RValue (VArray xs)) = Inr (length xs)"
| "Len (RValue (VSlice xs)) = Inr (length xs)"
| "Len (RValue (VMap kvs)) = Inr (length kvs)"
| "Len (RValue v) = Inl (ValueError ''reflect.Value.Len'' (Kind (RValue v)))"

text \<open>
  \<^verbatim>\<open>func (v Value) Index(i int) Value\<close>: "It panics if v's Kind is not Array, Slice, or
  String or i is out of range."
\<close>

fun Index :: "rvalue \<Rightarrow> nat \<Rightarrow> panic + rvalue" where
  "Index (RValue (VArray xs)) i =
     (if i < length xs then Inr (RValue (xs ! i)) else Inl IndexOutOfRange)"
| "Index (RValue (VSlice xs)) i =
     (if i < length xs then Inr (RValue (xs ! i)) else Inl IndexOutOfRange)"
| "Index (RValue v) i = Inl (ValueError ''reflect.Value.Index'' (Kind (RValue v)))"

section \<open>Package pagination\<close>

text \<open>
  The interface \<^verbatim>\<open>Page\<close> has four getters; a page is the record of what they return.
  Go's \<^verbatim>\<open>int\<close> is modelled by \<open>int\<close>: the package only compares page numbers and
  passes them on, it does no arithmetic on them.
\<close>

record page =
  Num :: int
  Size :: int
  Total :: int
  Content :: val

text \<open>
  The interface \<^verbatim>\<open>Pageable\<close>. Its methods act on the outside world (a server), of
  type \<open>'s\<close>, which is passed through. A method returns the pair \<^verbatim>\<open>(Page, error)\<close>;
  either component may be nil.
\<close>

record 's Pageable =
  GetPage :: "int \<Rightarrow> int \<Rightarrow> 's \<Rightarrow> (page option \<times> error option) call_result \<times> 's"
  NextPage :: "page \<Rightarrow> 's \<Rightarrow> (page option \<times> error option) call_result \<times> 's"

text \<open>\<^verbatim>\<open>type UntilTrueFunc func(interface{}) (bool, error)\<close>\<close>

type_synonym 's UntilTrueFunc = "val \<Rightarrow> 's \<Rightarrow> (bool \<times> error option) call_result \<times> 's"

text \<open>\<^verbatim>\<open>func HasNext(page Page) bool\<close>\<close>

definition HasNext :: "page \<Rightarrow> bool" where
  "HasNext p = (Num p < Total p)"

text \<open>
  What a call of \<^verbatim>\<open>LoopUntil\<close> ends in: it returns an \<^verbatim>\<open>error\<close> (nil is \<open>None\<close>),
  panics, or never returns. Beside the outcome the model keeps the list of calls that
  \<^verbatim>\<open>LoopUntil\<close> made into caller-supplied code, in order.
\<close>

datatype outcome = Returned "error option" | Panicked panic | Blocked

datatype call = CallGetPage int int | CallNextPage page | CallUntilFunc val

text \<open>
  The \<^verbatim>\<open>for\<close> loop of \<^verbatim>\<open>LoopUntil\<close>, entered with \<open>i = 0\<close>:
  \<^verbatim>\<open>
      stopped := false
      for i := 0; i < reflect.ValueOf(content).Len(); i++ {
          stop, err := untilFunc(content.Index(i))
          if err != nil { return err }
          if stop { stopped = true; break }
      }
      if !stopped { return ErrConditionNeverMet }
      ...
      return nil
  \<close>
  \<open>content\<close> is already a \<^verbatim>\<open>reflect.Value\<close>; the loop condition passes it to
  \<^verbatim>\<open>reflect.ValueOf\<close> once more, and the predicate receives the \<^verbatim>\<open>reflect.Value\<close>
  that \<^verbatim>\<open>Index\<close> returns.
\<close>

function LoopUntil_for ::
  "rvalue \<Rightarrow> 's UntilTrueFunc \<Rightarrow> nat \<Rightarrow> call list \<Rightarrow> 's \<Rightarrow> outcome \<times> call list \<times> 's" where
  "LoopUntil_for content untilFunc i calls s =
     (case Len (reflect_ValueOf (as_interface content)) of
        Inl p \<Rightarrow> (Panicked p, calls, s)
      | Inr n \<Rightarrow>
          if i < n then
            (case Index content i of
               Inl p \<Rightarrow> (Panicked p, calls, s)
             | Inr elem \<Rightarrow>
                 (case untilFunc (as_interface elem) s of
                    (Panics p, s') \<Rightarrow> (Panicked p, calls @ [CallUntilFunc (as_interface elem)], s')
                  | (Blocks, s') \<Rightarrow> (Blocked, calls @ [CallUntilFunc (as_interface elem)], s')
                  | (Returns (stop, Some err), s') \<Rightarrow>
                      (Returned (Some err), calls @ [CallUntilFunc (as_interface elem)], s')
                  | (Returns (stop, None), s') \<Rightarrow>
                      if stop then (Returned None, calls @ [CallUntilFunc (as_interface elem)], s')
                      else LoopUntil_for content untilFunc (i + 1)
                             (calls @ [CallUntilFunc (as_interface elem)]) s'))
          else (Returned (Some ErrConditionNeverMet), calls, s))"
  by pat_completeness auto
termination
  by (relation "measure (\<lambda>(content, untilFunc, i, calls, s).
        (case Len (reflect_ValueOf (as_interface content)) of Inl p \<Rightarrow> 0 | Inr n \<Rightarrow> n - i))")
     auto

declare LoopUntil_for.simps [simp del]

text \<open>
  \<^verbatim>\<open>func LoopUntil(ctx context.Context, pageable Pageable, untilFunc UntilTrueFunc) error\<close>.
  The context is only handed on to \<^verbatim>\<open>GetPage\<close> and is left out. A nil page with a nil
  error makes \<^verbatim>\<open>page.Content()\<close> a call on a nil interface.
\<close>

definition LoopUntil ::
  "'s Pageable \<Rightarrow> 's UntilTrueFunc \<Rightarrow> 's \<Rightarrow> outcome \<times> call list \<times> 's" where
  "LoopUntil pageable untilFunc s =
     (case GetPage pageable 1 10 s of
        (Panics p, s') \<Rightarrow> (Panicked p, [CallGetPage 1 10], s')
      | (Blocks, s') \<Rightarrow> (Blocked, [CallGetPage 1 10], s')
      | (Returns (pg, Some err), s') \<Rightarrow> (Returned (Some err), [CallGetPage 1 10], s')
      | (Returns (None, None), s') \<Rightarrow> (Panicked NilDereference, [CallGetPage 1 10], s')
      | (Returns (Some page, None), s') \<Rightarrow>
          (let content = reflect_ValueOf (Content page) in
           case Kind content of
             reflect_Array \<Rightarrow> LoopUntil_for content untilFunc 0 [CallGetPage 1 10] s'
           | reflect_Slice \<Rightarrow> LoopUntil_for content untilFunc 0 [CallGetPage 1 10] s'
           | _ \<Rightarrow> (Panicked (ContentNotSequence (Content page)), [CallGetPage 1 10], s')))"

section \<open>AsChan: the background task and its two channels\<close>

text \<open>
  \<^verbatim>\<open>AsChan\<close> makes two unbuffered channels, \<^verbatim>\<open>consumer\<close> and \<^verbatim>\<open>done\<close>, returns
  \<^verbatim>\<open>consumer\<close> with the function \<^verbatim>\<open>cancel\<close>, and starts one goroutine. The shared
  state of the two goroutines is modelled by a record: whether each channel is closed,
  the values the consumer has received so far, and the outside world of the
  \<^verbatim>\<open>Pageable\<close>. Nothing is ever sent on \<^verbatim>\<open>done\<close>, so a receive from it is ready
  exactly when it is closed.

  The consumer's side is a schedule: \<open>pending\<close> lists what the consumer does while the
  task runs, in order. \<open>Receive\<close> is a receive from \<^verbatim>\<open>consumer\<close> that the task's
  \<^verbatim>\<open>select\<close> pairs with its send; \<open>Cancel\<close> is a call of \<^verbatim>\<open>cancel\<close>.
\<close>

datatype consumer_action = Receive | Cancel

record 's channels =
  consumer_closed :: bool
  done_closed :: bool
  received :: "val list"
  pending :: "consumer_action list"
  world :: 's

text \<open>The builtin \<^verbatim>\<open>close\<close> on a channel: closing a closed channel panics.\<close>

definition close_chan :: "bool \<Rightarrow> panic + bool" where
  "close_chan closed = (if closed then Inl CloseOfClosedChannel else Inr True)"

text \<open>\<^verbatim>\<open>cancel := func() { close(done) }\<close>\<close>

definition cancel :: "'s channels \<Rightarrow> panic + 's channels" where
  "cancel c =
     (case close_chan (done_closed c) of
        Inl p \<Rightarrow> Inl p
      | Inr closed \<Rightarrow> Inr (c\<lparr>done_closed := closed\<rparr>))"

text \<open>
  The function literal that \<^verbatim>\<open>AsChan\<close> passes to \<^verbatim>\<open>LoopUntil\<close>:
  \<^verbatim>\<open>
      select {
      case consumer <- i:
      case _, ok := <-done:
          if !ok { return true, nil }
      }
      return false, nil
  \<close>
  It waits until the consumer receives or \<^verbatim>\<open>done\<close> is closed. Calls of \<^verbatim>\<open>cancel\<close>
  that the consumer makes meanwhile take effect first; a second one panics in the
  consumer's goroutine, which ends the program like a panic of the task. With the
  schedule used up the task takes the \<^verbatim>\<open>done\<close> case if \<^verbatim>\<open>done\<close> is closed and waits
  for ever otherwise.
\<close>

fun select_send :: "val \<Rightarrow> consumer_action list \<Rightarrow> 's channels \<Rightarrow>
    (bool \<times> error option) call_result \<times> 's channels" where
  "select_send i [] c =
     (if done_closed c then (Returns (True, None), c\<lparr>pending := []\<rparr>)
      else (Blocks, c\<lparr>pending := []\<rparr>))"
| "select_send i (Receive # acts) c =
     (Returns (False, None), c\<lparr>received := received c @ [i], pending := acts\<rparr>)"
| "select_send i (Cancel # acts) c =
     (case cancel c of
        Inl p \<Rightarrow> (Panics p, c\<lparr>pending := acts\<rparr>)
      | Inr c' \<Rightarrow> select_send i acts c')"

definition AsChan_untilFunc :: "'s channels UntilTrueFunc" where
  "AsChan_untilFunc i c = select_send i (pending c) c"

text \<open>The \<^verbatim>\<open>Pageable\<close> acts on the world and leaves the channels alone.\<close>

definition in_world :: "('s \<Rightarrow> 'a \<times> 's) \<Rightarrow> 's channels \<Rightarrow> 'a \<times> 's channels" where
  "in_world f c = (case f (world c) of (r, w) \<Rightarrow> (r, c\<lparr>world := w\<rparr>))"

definition with_channels :: "'s Pageable \<Rightarrow> 's channels Pageable" where
  "with_channels pageable =
     \<lparr> GetPage = (\<lambda>n limit. in_world (GetPage pageable n limit)),
       NextPage = (\<lambda>p. in_world (NextPage pageable p)) \<rparr>"

text \<open>
  Consumer actions still pending when the task leaves \<^verbatim>\<open>LoopUntil\<close> happen before the
  task's deferred calls: a \<open>Cancel\<close> closes \<^verbatim>\<open>done\<close>, a \<open>Receive\<close> goes on waiting
  (for the close of \<^verbatim>\<open>consumer\<close>).
\<close>

fun run_pending :: "consumer_action list \<Rightarrow> 's channels \<Rightarrow> panic + 's channels" where
  "run_pending [] c = Inr (c\<lparr>pending := []\<rparr>)"
| "run_pending (Receive # acts) c = run_pending acts c"
| "run_pending (Cancel # acts) c =
     (case cancel c of Inl p \<Rightarrow> Inl p | Inr c' \<Rightarrow> run_pending acts c')"

text \<open>
  How the program stands once the task is over: the task ended and nothing panicked, or
  an unrecovered panic ended the program (the panics raised, in order), or the task
  waits for ever.
\<close>

datatype program_end = Finished | Crashed "panic list" | TaskBlocked

text \<open>
  The goroutine of \<^verbatim>\<open>AsChan\<close>:
  \<^verbatim>\<open>
      go func() {
          defer close(consumer)
          defer close(done)
          _ = LoopUntil(ctx, pageable, func(i interface{}) (bool, error) { ... })
      }()
  \<close>
  The error of \<^verbatim>\<open>LoopUntil\<close> is dropped. Deferred calls run last-in first-out, also
  when \<^verbatim>\<open>LoopUntil\<close> panicked: first \<^verbatim>\<open>close(done)\<close>, then \<^verbatim>\<open>close(consumer)\<close>. A
  panic of a deferred call does not stop the remaining ones. No one recovers, so any
  panic ends the program.
\<close>

definition AsChan_task ::
  "'s Pageable \<Rightarrow> 's channels \<Rightarrow> program_end \<times> call list \<times> 's channels" where
  "AsChan_task pageable c0 =
     (case LoopUntil (with_channels pageable) AsChan_untilFunc c0 of
        (r, calls, c1) \<Rightarrow>
          (case run_pending (pending c1) c1 of
             Inl p \<Rightarrow> (Crashed [p], calls, c1)
           | Inr c2 \<Rightarrow>
               (case r of
                  Blocked \<Rightarrow> (TaskBlocked, calls, c2)
                | _ \<Rightarrow>
                    (let ps0 = (case r of Panicked p \<Rightarrow> [p] | _ \<Rightarrow> []);
                         (ps1, c3) =
                           (case close_chan (done_closed c2) of
                              Inl p \<Rightarrow> (ps0 @ [p], c2)
                            | Inr closed \<Rightarrow> (ps0, c2\<lparr>done_closed := closed\<rparr>));
                         (ps2, c4) =
                           (case close_chan (consumer_closed c3) of
                              Inl p \<Rightarrow> (ps1 @ [p], c3)
                            | Inr closed \<Rightarrow> (ps1, c3\<lparr>consumer_closed := closed\<rparr>))
                     in (if ps2 = [] then Finished else Crashed ps2, calls, c4)))))"

text \<open>Calls of \<^verbatim>\<open>cancel\<close> that the consumer makes after the task has ended.\<close>

fun cancel_times :: "nat \<Rightarrow> 's channels \<Rightarrow> panic + 's channels" where
  "cancel_times 0 c = Inr c"
| "cancel_times (Suc n) c =
     (case cancel c of Inl p \<Rightarrow> Inl p | Inr c' \<Rightarrow> cancel_times n c')"

text \<open>
  \<^verbatim>\<open>func AsChan(ctx context.Context, pageable Pageable) (chan interface{}, CancelFunc)\<close>
  together with its consumer: the channels start open and empty, the task runs against
  the consumer's schedule \<open>acts\<close>, and afterwards the consumer calls \<^verbatim>\<open>cancel\<close>
  another \<open>later\<close> times.
\<close>

definition AsChan ::
  "'s Pageable \<Rightarrow> consumer_action list \<Rightarrow> nat \<Rightarrow> 's \<Rightarrow> program_end \<times> call list \<times> 's channels" where
  "AsChan pageable acts later w =
     (case AsChan_task pageable
             \<lparr>consumer_closed = False, done_closed = False, received = [],
              pending = acts, world = w\<rparr> of
        (Finished, calls, c) \<Rightarrow>
          (case cancel_times later c of
             Inl p \<Rightarrow> (Crashed [p], calls, c)
           | Inr c' \<Rightarrow> (Finished, calls, c'))
      | (r, calls, c) \<Rightarrow> (r, calls, c))"

section \<open>Package backend: pages of load-balancer backends\<close>

text \<open>
  Package server has the same file with \<^verbatim>\<open>ServerPage\<close> and \<^verbatim>\<open>ServerInfo\<close> in place of
  \<^verbatim>\<open>BackendPage\<close> and \<^verbatim>\<open>BackendInfo\<close>; the model below stands for both. The element
  type \<^verbatim>\<open>BackendInfo\<close> is opaque to the pagination code and is modelled by \<open>val\<close>.
\<close>

record BackendPage =
  Page :: int
  TotalItems :: int
  TotalPages :: int
  Limit :: int
  Data :: "val list"

definition BackendPage_Num :: "BackendPage \<Rightarrow> int" where
  "BackendPage_Num f = Page f"

definition BackendPage_Size :: "BackendPage \<Rightarrow> int" where
  "BackendPage_Size f = Limit f"

definition BackendPage_Total :: "BackendPage \<Rightarrow> int" where
  "BackendPage_Total f = TotalPages f"

definition BackendPage_Content :: "BackendPage \<Rightarrow> val" where
  "BackendPage_Content f = VSlice (Data f)"

text \<open>A \<^verbatim>\<open>BackendPage\<close> seen through the interface \<^verbatim>\<open>pagination.Page\<close>.\<close>

definition BackendPage_as_Page :: "BackendPage \<Rightarrow> page" where
  "BackendPage_as_Page f =
     \<lparr> Num = BackendPage_Num f, Size = BackendPage_Size f,
       Total = BackendPage_Total f, Content = BackendPage_Content f \<rparr>"

text \<open>
  A parsed URL (\<^verbatim>\<open>*url.URL\<close>): what precedes the path, the path, and the query kept in
  decoded form as a list of keys with their values (\<^verbatim>\<open>url.Values\<close>, one value per key).
\<close>

record url =
  Origin :: string
  Path :: string
  Query :: "(string \<times> string) list"

text \<open>\<^verbatim>\<open>func (v Values) Set(key, value string)\<close> replaces the values of \<open>key\<close>.\<close>

fun Values_Set :: "(string \<times> string) list \<Rightarrow> string \<Rightarrow> string \<Rightarrow> (string \<times> string) list" where
  "Values_Set [] k v = [(k, v)]"
| "Values_Set ((k', v') # kvs) k v =
     (if k' = k then (k, v) # kvs else (k', v') # Values_Set kvs k v)"

text \<open>\<^verbatim>\<open>strconv.Itoa\<close>: the decimal text of an integer.\<close>

definition digit_char :: "nat \<Rightarrow> char" where
  "digit_char d = ''0123456789'' ! d"

function decimal :: "nat \<Rightarrow> string" where
  "decimal n = (if n < 10 then [digit_char n] else decimal (n div 10) @ [digit_char (n mod 10)])"
  by pat_completeness auto
termination
  by (relation "measure id") auto

definition strconv_Itoa :: "int \<Rightarrow> string" where
  "strconv_Itoa i = (if i < 0 then CHR ''-'' # decimal (nat (- i)) else decimal (nat i))"

record request =
  Verb :: string
  URL :: url

record 'b response =
  StatusCode :: int
  Status :: string
  Body :: 'b

text \<open>
  The interface \<^verbatim>\<open>client.Client\<close>: \<^verbatim>\<open>Do\<close> sends a request to the server (the world \<open>'s\<close>)
  and returns \<^verbatim>\<open>(*http.Response, error)\<close>.
\<close>

record ('b, 's) Client =
  BaseURL :: string
  Do :: "request \<Rightarrow> 's \<Rightarrow> ('b response option \<times> error option) \<times> 's"

text \<open>The receiver \<^verbatim>\<open>api\<close> holds the client.\<close>

record ('b, 's) api =
  client :: "('b, 's) Client"

text \<open>
  What \<^verbatim>\<open>GetPage\<close> uses and the source files do not define: the package constant
  \<^verbatim>\<open>path\<close>, and from Go's library \<^verbatim>\<open>url.Parse\<close>, \<^verbatim>\<open>http.NewRequestWithContext\<close> (given the
  verb and the URL) and the JSON decoding of a response body into the page under the key
  \<^verbatim>\<open>data\<close>. They are parameters of the model.
\<close>

record 'b library =
  path :: string
  url_Parse :: "string \<Rightarrow> error + url"
  http_NewRequestWithContext :: "string \<Rightarrow> url \<Rightarrow> error + request"
  json_Decode :: "'b \<Rightarrow> error + BackendPage"

text \<open>
  \<^verbatim>\<open>func (a api) GetPage(ctx context.Context, page, limit int) (pagination.Page, error)\<close>.
  A nil response with a nil error makes \<^verbatim>\<open>response.StatusCode\<close> a nil dereference.
\<close>

definition api_GetPage ::
  "'b library \<Rightarrow> ('b, 's) api \<Rightarrow> int \<Rightarrow> int \<Rightarrow> 's \<Rightarrow>
     (page option \<times> error option) call_result \<times> 's" where
  "api_GetPage lib a page limit s =
     (case url_Parse lib (BaseURL (client a)) of
        Inl err \<Rightarrow>
          (Returns (None, Some (Wrapped (''could not parse URL: '' @ Error err) err)), s)
      | Inr endpoint \<Rightarrow>
          (let endpoint = endpoint\<lparr>Path := path lib\<rparr>;
               query = Query endpoint;
               query = Values_Set query ''page'' (strconv_Itoa page);
               query = Values_Set query ''limit'' (strconv_Itoa limit);
               endpoint = endpoint\<lparr>Query := query\<rparr>
           in case http_NewRequestWithContext lib ''GET'' endpoint of
                Inl err \<Rightarrow>
                  (Returns (None, Some (Wrapped
                     (''could not create request object: '' @ Error err) err)), s)
              | Inr req \<Rightarrow>
                  (case Do (client a) req s of
                     ((resp, Some err), s') \<Rightarrow>
                       (Returns (None, Some (Wrapped
                          (''error when executing request: '' @ Error err) err)), s')
                   | ((None, None), s') \<Rightarrow> (Panics NilDereference, s')
                   | ((Some resp, None), s') \<Rightarrow>
                       if StatusCode resp \<ge> 500 \<and> StatusCode resp < 600 then
                         (Returns (None, Some (Errorf
                            (''could not get load balancer frontends '' @ Status resp))), s')
                       else
                         (case json_Decode lib (Body resp) of
                            Inl err \<Rightarrow>
                              (Returns (None, Some (Wrapped
                                 (''could not parse load balancer frontend list response: ''
                                    @ Error err) err)), s')
                          | Inr payload_Page \<Rightarrow>
                              (Returns (Some (BackendPage_as_Page payload_Page), None), s')))))"

text \<open>
  \<^verbatim>\<open>func (a api) NextPage(ctx context.Context, page pagination.Page) (pagination.Page, error) {
      return a.GetPage(ctx, page.Num(), page.Size())
  }\<close>
\<close>

definition api_NextPage ::
  "'b library \<Rightarrow> ('b, 's) api \<Rightarrow> page \<Rightarrow> 's \<Rightarrow>
     (page option \<times> error option) call_result \<times> 's" where
  "api_NextPage lib a p s = api_GetPage lib a (Num p) (Size p) s"

text \<open>\<^verbatim>\<open>api\<close> implements \<^verbatim>\<open>pagination.Pageable\<close>.\<close>

definition api_Pageable :: "'b library \<Rightarrow> ('b, 's) api \<Rightarrow> 's Pageable" where
  "api_Pageable lib a = \<lparr> GetPage = api_GetPage lib a, NextPage = api_NextPage lib a \<rparr>"

section \<open>Package client: options and New\<close>

text \<open>
  \<^verbatim>\<open>type optionSet struct { httpClient *http.Client; token string; logWriter io.Writer }\<close>.
  The HTTP client and the writer are opaque (\<open>'h\<close>, \<open>'l\<close>); nil is \<open>None\<close>.
\<close>

record ('h, 'l) optionSet =
  httpClient :: "'h option"
  token :: string
  logWriter :: "'l option"


text \<open>
  The process environment, of type \<open>'w\<close>, is reached through \<^verbatim>\<open>os.LookupEnv\<close> and
  \<^verbatim>\<open>os.Unsetenv\<close>.
\<close>

record 'w os =
  LookupEnv :: "string \<Rightarrow> 'w \<Rightarrow> string \<times> bool"
  Unsetenv :: "string \<Rightarrow> 'w \<Rightarrow> error option \<times> 'w"

text \<open>
  \<^verbatim>\<open>type Option func(o *optionSet) error\<close>: an option updates the option set in place
  and may fail; it may read and change the environment.
\<close>

type_synonym ('h, 'l, 'w) Option =
  "('h, 'l) optionSet \<Rightarrow> 'w \<Rightarrow> (error option \<times> ('h, 'l) optionSet) \<times> 'w"

definition TokenEnvName :: string where
  "TokenEnvName = ''ANEXIA_TOKEN''"


definition TokenFromEnv :: "'w os \<Rightarrow> bool \<Rightarrow> ('h, 'l, 'w) Option" where
  "TokenFromEnv sys unset = (\<lambda>opts w.
     case LookupEnv sys TokenEnvName w of
       (tok, tokenPresent) \<Rightarrow>
         if \<not> tokenPresent then
           ((Some (Wrapped (Error ErrEnvMissing @ '': '' @ TokenEnvName) ErrEnvMissing), opts), w)
         else
           (let opts = opts\<lparr>token := tok\<rparr> in
            if unset then
              (case Unsetenv sys TokenEnvName w of
                 (Some err, w') \<Rightarrow>
                   ((Some (Wrapped (''could not unset '' @ TokenEnvName @ '': '' @ Error err) err),
                     opts), w')
               | (None, w') \<Rightarrow> ((None, opts), w'))
            else ((None, opts), w)))"

definition AuthFromEnv :: "'w os \<Rightarrow> bool \<Rightarrow> ('h, 'l, 'w) Option" where
  "AuthFromEnv sys unset = TokenFromEnv sys unset"

definition LogWriter :: "'l \<Rightarrow> ('h, 'l, 'w) Option" where
  "LogWriter lw = (\<lambda>opts w. ((None, opts\<lparr>logWriter := Some lw\<rparr>), w))"

definition HTTPClient :: "'h option \<Rightarrow> ('h, 'l, 'w) Option" where
  "HTTPClient c = (\<lambda>opts w. ((None, opts\<lparr>httpClient := c\<rparr>), w))"




section \<open>Fixtures: a Pageable, predicates, a server and an environment for the examples\<close>

text \<open>
  A \<^verbatim>\<open>Pageable\<close> as a test would write it: it serves the pages of a fixed list,
  \<^verbatim>\<open>GetPage\<close> by page number (from 1) and \<^verbatim>\<open>NextPage\<close> the page after the given one.
\<close>

definition serve :: "page list \<Rightarrow> int \<Rightarrow> 's \<Rightarrow> (page option \<times> error option) call_result \<times> 's" where
  "serve pages n s =
     (if 1 \<le> n \<and> n \<le> int (length pages)
      then (Returns (Some (pages ! nat (n - 1)), None), s)
      else (Returns (None, Some (ExternalError ''no such page'')), s))"

definition list_Pageable :: "page list \<Rightarrow> 's Pageable" where
  "list_Pageable pages =
     \<lparr> GetPage = (\<lambda>n limit. serve pages n),
       NextPage = (\<lambda>p. serve pages (Num p + 1)) \<rparr>"

text \<open>A \<^verbatim>\<open>Pageable\<close> whose every fetch fails with the given error.\<close>

definition failing_Pageable :: "error \<Rightarrow> 's Pageable" where
  "failing_Pageable e =
     \<lparr> GetPage = (\<lambda>n limit s. (Returns (None, Some e), s)),
       NextPage = (\<lambda>p s. (Returns (None, Some e), s)) \<rparr>"

text \<open>
  The two pages of the specification's scenario, and three pages with 3, 3 and 2
  elements.
\<close>

definition two_pages :: "page list" where
  "two_pages =
     [\<lparr>Num = 1, Size = 10, Total = 2, Content = VSlice [VInt 1, VInt 2, VInt 3]\<rparr>,
      \<lparr>Num = 2, Size = 10, Total = 2, Content = VSlice [VInt 4, VInt 5]\<rparr>]"

definition three_pages :: "page list" where
  "three_pages =
     [\<lparr>Num = 1, Size = 3, Total = 3, Content = VSlice [VInt 1, VInt 2, VInt 3]\<rparr>,
      \<lparr>Num = 2, Size = 3, Total = 3, Content = VSlice [VInt 4, VInt 5, VInt 6]\<rparr>,
      \<lparr>Num = 3, Size = 3, Total = 3, Content = VSlice [VInt 7, VInt 8]\<rparr>]"

text \<open>
  Predicates: true exactly on the element \<open>x\<close> (given as such or as the
  \<^verbatim>\<open>reflect.Value\<close> that reflects it), and failing with \<open>e\<close> exactly on \<open>x\<close>.
\<close>

definition until_equals :: "val \<Rightarrow> 's UntilTrueFunc" where
  "until_equals x = (\<lambda>v s. (Returns (v = x \<or> v = VReflectValue x, None), s))"

definition until_fails_on :: "val \<Rightarrow> error \<Rightarrow> 's UntilTrueFunc" where
  "until_fails_on x e =
     (\<lambda>v s. (Returns (False, if v = x \<or> v = VReflectValue x then Some e else None), s))"

text \<open>
  A server for package backend. Response bodies are given in decoded form, so decoding
  never fails; parsing a URL keeps the text as the origin; making a request never
  fails. The server keeps the list of the requests it has seen (its state) and answers
  the query \<^verbatim>\<open>page=n\<close> with the page numbered \<open>n\<close> of a table of three pages.
\<close>

definition example_library :: "BackendPage library" where
  "example_library =
     \<lparr> path = ''/backends'',
       url_Parse = (\<lambda>text. Inr \<lparr>Origin = text, Path = [], Query = []\<rparr>),
       http_NewRequestWithContext = (\<lambda>verb u. Inr \<lparr>Verb = verb, URL = u\<rparr>),
       json_Decode = Inr \<rparr>"

definition backend_table :: "(string \<times> BackendPage) list" where
  "backend_table =
     [(''1'', \<lparr>Page = 1, TotalItems = 5, TotalPages = 3, Limit = 2, Data = [VInt 1, VInt 2]\<rparr>),
      (''2'', \<lparr>Page = 2, TotalItems = 5, TotalPages = 3, Limit = 2, Data = [VInt 3, VInt 4]\<rparr>),
      (''3'', \<lparr>Page = 3, TotalItems = 5, TotalPages = 3, Limit = 2, Data = [VInt 5]\<rparr>)]"

definition example_Do ::
  "request \<Rightarrow> request list \<Rightarrow> (BackendPage response option \<times> error option) \<times> request list" where
  "example_Do req seen =
     (case map_of (Query (URL req)) ''page'' of
        None \<Rightarrow> ((None, Some (ExternalError ''no page given'')), seen @ [req])
      | Some n \<Rightarrow>
          (case map_of backend_table n of
             None \<Rightarrow> ((None, Some (ExternalError ''no such page'')), seen @ [req])
           | Some f \<Rightarrow>
               ((Some \<lparr>StatusCode = 200, Status = ''200 OK'', Body = f\<rparr>, None), seen @ [req])))"

definition example_api :: "(BackendPage, request list) api" where
  "example_api = \<lparr> client = \<lparr> BaseURL = ''https://engine.anexia-it.com'', Do = example_Do \<rparr> \<rparr>"


section \<open>LoopUntil: what the loop condition does\<close>

text \<open>
  The loop condition of \<^verbatim>\<open>LoopUntil\<close> calls \<^verbatim>\<open>Len\<close> on
  \<^verbatim>\<open>reflect.ValueOf(content)\<close>, where \<open>content\<close> already is a \<^verbatim>\<open>reflect.Value\<close>. The
  argument of \<^verbatim>\<open>Len\<close> therefore reflects a struct, whatever the page holds, and
  \<^verbatim>\<open>Len\<close> panics on a struct.
\<close>

lemma Len_of_boxed_Value:
  "Len (reflect_ValueOf (as_interface content)) =
     Inl (ValueError ''reflect.Value.Len'' reflect_Struct)"
  by (cases content) (simp add: reflect_ValueOf_def)

text \<open>So the loop panics when its condition is first evaluated, before any element
  is handed to the predicate.\<close>

lemma LoopUntil_for_panics:
  "LoopUntil_for content untilFunc i calls s =
     (Panicked (ValueError ''reflect.Value.Len'' reflect_Struct), calls, s)"
  by (subst LoopUntil_for.simps) (simp add: Len_of_boxed_Value)

text \<open>Whenever the first page arrives and its content is a slice or an array,
  \<^verbatim>\<open>LoopUntil\<close> panics after that one fetch.\<close>

lemma LoopUntil_sequence_content_panics:
  assumes "GetPage pageable 1 10 s = (Returns (Some p, None), s')"
      and "Content p = VSlice xs \<or> Content p = VArray xs"
  shows "LoopUntil pageable untilFunc s =
           (Panicked (ValueError ''reflect.Value.Len'' reflect_Struct), [CallGetPage 1 10], s')"
  using assms by (auto simp add: LoopUntil_def reflect_ValueOf_def LoopUntil_for_panics)

text \<open>\<^verbatim>\<open>LoopUntil\<close> never uses the method \<^verbatim>\<open>NextPage\<close> of its \<^verbatim>\<open>Pageable\<close>.\<close>

lemma LoopUntil_ignores_NextPage:
  "LoopUntil (pageable\<lparr>NextPage := f\<rparr>) untilFunc s = LoopUntil pageable untilFunc s"
  by (simp add: LoopUntil_def)

lemma GetPage_two_pages:
  "GetPage (list_Pageable two_pages) 1 10 s =
     (Returns (Some \<lparr>Num = 1, Size = 10, Total = 2,
                      Content = VSlice [VInt 1, VInt 2, VInt 3]\<rparr>, None), s)"
  by (simp add: list_Pageable_def serve_def two_pages_def)

section \<open>The claims about LoopUntil and HasNext\<close>

text \<open>
  Claim C1 says that a predicate true on one element of the first page makes
  \<^verbatim>\<open>LoopUntil\<close> return nil after the single fetch \<^verbatim>\<open>GetPage(1, 10)\<close>. On the two pages
  of the specification's scenario, with the predicate true exactly on the second element
  of page 1, the code makes that one fetch and then panics in the loop condition: it
  does not return.
\<close>

theorem LoopUntil_match_on_first_page:
  "LoopUntil (list_Pageable two_pages) (until_equals (VInt 2)) () =
     (Panicked (ValueError ''reflect.Value.Len'' reflect_Struct), [CallGetPage 1 10], ())"
  by (rule LoopUntil_sequence_content_panics [OF GetPage_two_pages]) simp

text \<open>
  Claim C2 says that with no element of the first page satisfying the predicate
  \<^verbatim>\<open>LoopUntil\<close> returns \<^verbatim>\<open>ErrConditionNeverMet\<close>, also when a later page holds a match.
  In the specification's scenario (the predicate is true on 4, which is on page 2) the
  code fetches page 1 only, and panics instead of returning \<^verbatim>\<open>ErrConditionNeverMet\<close>.
\<close>

theorem LoopUntil_no_match_on_first_page:
  "LoopUntil (list_Pageable two_pages) (until_equals (VInt 4)) () =
     (Panicked (ValueError ''reflect.Value.Len'' reflect_Struct), [CallGetPage 1 10], ())
   \<and> fst (LoopUntil (list_Pageable two_pages) (until_equals (VInt 4)) ()) \<noteq>
       Returned (Some ErrConditionNeverMet)"
  by (simp add: LoopUntil_sequence_content_panics [OF GetPage_two_pages])

text \<open>
  Claim C6: when the first \<^verbatim>\<open>GetPage\<close> returns an error \<open>e\<close>, \<^verbatim>\<open>LoopUntil\<close> returns
  exactly \<open>e\<close>; the only call it has made is that fetch, so the predicate was never
  evaluated, and the world is as the fetch left it.
\<close>

theorem LoopUntil_first_fetch_error:
  assumes "GetPage pageable 1 10 s = (Returns (pg, Some e), s')"
  shows "LoopUntil pageable untilFunc s = (Returned (Some e), [CallGetPage 1 10], s')"
  using assms by (cases pg) (simp_all add: LoopUntil_def)

theorem LoopUntil_first_fetch_error_witness:
  "GetPage (failing_Pageable (ExternalError ''down'')) 1 10 () =
     (Returns (None, Some (ExternalError ''down'')), ())
   \<and> LoopUntil (failing_Pageable (ExternalError ''down'')) (until_equals (VInt 1)) () =
     (Returned (Some (ExternalError ''down'')), [CallGetPage 1 10], ())"
proof -
  have h: "GetPage (failing_Pageable (ExternalError ''down'')) 1 10 () =
     (Returns (None, Some (ExternalError ''down'')), ())"
    by (simp add: failing_Pageable_def)
  show ?thesis
    using h LoopUntil_first_fetch_error [OF h, of "until_equals (VInt 1)"] by simp
qed

text \<open>
  Claim C7 says that a predicate failing on an element of the first page makes
  \<^verbatim>\<open>LoopUntil\<close> return that error at once. With a predicate that fails on the second
  element of page 1 the code never reaches the predicate: it panics in the loop
  condition.
\<close>

theorem LoopUntil_predicate_error:
  "LoopUntil (list_Pageable two_pages) (until_fails_on (VInt 2) (ExternalError ''boom'')) () =
     (Panicked (ValueError ''reflect.Value.Len'' reflect_Struct), [CallGetPage 1 10], ())"
  by (rule LoopUntil_sequence_content_panics [OF GetPage_two_pages]) simp

text \<open>
  Claim C8: when the content of the first page is neither an array nor a slice,
  \<^verbatim>\<open>LoopUntil\<close> panics (the panic of its default branch, which names the content); it
  does not return an error and does not treat the content as empty.
\<close>

theorem LoopUntil_non_sequence_panics:
  assumes "GetPage pageable 1 10 s = (Returns (Some p, None), s')"
      and "Kind (reflect_ValueOf (Content p)) \<noteq> reflect_Array"
      and "Kind (reflect_ValueOf (Content p)) \<noteq> reflect_Slice"
  shows "LoopUntil pageable untilFunc s =
           (Panicked (ContentNotSequence (Content p)), [CallGetPage 1 10], s')"
  using assms by (simp add: LoopUntil_def Let_def split: kind.splits)

theorem LoopUntil_non_sequence_panics_witness:
  "LoopUntil (list_Pageable [\<lparr>Num = 1, Size = 10, Total = 1, Content = VNil\<rparr>])
       (until_equals (VInt 1)) () =
     (Panicked (ContentNotSequence VNil), [CallGetPage 1 10], ())
   \<and> LoopUntil
       (list_Pageable [\<lparr>Num = 1, Size = 10, Total = 1, Content = VMap [(VInt 1, VInt 2)]\<rparr>])
       (until_equals (VInt 1)) () =
     (Panicked (ContentNotSequence (VMap [(VInt 1, VInt 2)])), [CallGetPage 1 10], ())"
proof -
  have g: "GetPage (list_Pageable [\<lparr>Num = 1, Size = 10, Total = 1, Content = c\<rparr>]) 1 10 () =
     (Returns (Some \<lparr>Num = 1, Size = 10, Total = 1, Content = c\<rparr>, None), ())" for c
    by (simp add: list_Pageable_def serve_def)
  show ?thesis
    using LoopUntil_non_sequence_panics [OF g [of VNil], of "until_equals (VInt 1)"]
          LoopUntil_non_sequence_panics [OF g [of "VMap [(VInt 1, VInt 2)]"],
            of "until_equals (VInt 1)"]
    by (simp add: reflect_ValueOf_def)
qed

text \<open>
  Claim C9: \<^verbatim>\<open>HasNext\<close> is true exactly when the page's number is below its total; on a
  page whose number equals its total (the last page) it is false.
\<close>

theorem HasNext_iff_Num_less_Total:
  "HasNext p = (Num p < Total p)
   \<and> \<not> HasNext \<lparr>Num = n, Size = sz, Total = n, Content = c\<rparr>"
  by (simp add: HasNext_def)

section \<open>The claims about AsChan\<close>

text \<open>
  The task of \<^verbatim>\<open>AsChan\<close> runs \<^verbatim>\<open>LoopUntil\<close>, so it inherits what \<^verbatim>\<open>LoopUntil\<close> does:
  one fetch of page 1, no use of \<^verbatim>\<open>NextPage\<close>, and the panic in the loop condition.
  While \<^verbatim>\<open>LoopUntil\<close> runs, the channels are left as they were: only the world of the
  \<^verbatim>\<open>Pageable\<close> changes.
\<close>

lemma LoopUntil_with_channels_world:
  assumes "LoopUntil (with_channels pageable) f c = (r, calls, c')"
  shows "\<exists>w. c' = c\<lparr>world := w\<rparr>"
proof -
  obtain res w1 where g: "GetPage pageable 1 10 (world c) = (res, w1)"
    by (cases "GetPage pageable 1 10 (world c)")
  have g': "GetPage (with_channels pageable) 1 10 c = (res, c\<lparr>world := w1\<rparr>)"
    by (simp add: with_channels_def in_world_def g)
  have "c' = c\<lparr>world := w1\<rparr>"
  proof (cases res)
    case (Returns pe)
    obtain pg err where pe: "pe = (pg, err)" by (cases pe)
    show ?thesis
    proof (cases err)
      case (Some e)
      then show ?thesis
        using assms g' Returns pe by (cases pg) (simp_all add: LoopUntil_def)
    next
      case None
      show ?thesis
      proof (cases pg)
        case None
        then show ?thesis
          using assms g' Returns pe \<open>err = None\<close> by (simp add: LoopUntil_def)
      next
        case (Some p)
        then show ?thesis
          using assms g' Returns pe \<open>err = None\<close>
          by (cases "Kind (reflect_ValueOf (Content p))")
             (simp_all add: LoopUntil_def Let_def LoopUntil_for_panics)
      qed
    qed
  next
    case (Panics x)
    then show ?thesis using assms g' by (simp add: LoopUntil_def)
  next
    case Blocks
    then show ?thesis using assms g' by (simp add: LoopUntil_def)
  qed
  then show ?thesis by blast
qed


lemma with_channels_NextPage_update:
  "with_channels (pageable\<lparr>NextPage := f\<rparr>) =
     (with_channels pageable)\<lparr>NextPage := (\<lambda>p. in_world (f p))\<rparr>"
  by (simp add: with_channels_def)

text \<open>The outcome of \<^verbatim>\<open>AsChan\<close> does not depend on the method \<^verbatim>\<open>NextPage\<close>: the task
  never asks for a page after the first.\<close>

lemma AsChan_ignores_NextPage:
  "AsChan (pageable\<lparr>NextPage := f\<rparr>) acts later w = AsChan pageable acts later w"
  by (simp add: AsChan_def AsChan_task_def with_channels_NextPage_update
        LoopUntil_ignores_NextPage)

lemma GetPage_three_pages:
  "GetPage (with_channels (list_Pageable three_pages)) 1 10 c =
     (Returns (Some \<lparr>Num = 1, Size = 3, Total = 3,
                      Content = VSlice [VInt 1, VInt 2, VInt 3]\<rparr>, None), c\<lparr>world := world c\<rparr>)"
  by (simp add: with_channels_def in_world_def list_Pageable_def serve_def three_pages_def)


lemma LoopUntil_failing_Pageable:
  "LoopUntil (with_channels (failing_Pageable e)) untilFunc c =
     (Returned (Some e), [CallGetPage 1 10], c\<lparr>world := world c\<rparr>)"
  by (simp add: LoopUntil_def with_channels_def in_world_def failing_Pageable_def)

text \<open>
  Claim C3 says that \<^verbatim>\<open>AsChan\<close> sends every element of every page, in order, and then
  closes the channel: 8 elements for pages of 3, 3 and 2 elements. With a consumer ready
  to receive 8 times, the task fetches page 1 and nothing else, panics in the loop
  condition of \<^verbatim>\<open>LoopUntil\<close> before the first send, runs its two deferred closes and
  ends the program: the consumer has received nothing.
\<close>

theorem AsChan_three_pages:
  "AsChan (list_Pageable three_pages) (replicate 8 Receive) 0 () =
     (Crashed [ValueError ''reflect.Value.Len'' reflect_Struct],
      [CallGetPage 1 10],
      \<lparr>consumer_closed = True, done_closed = True, received = [], pending = [], world = ()\<rparr>)"
  by (simp add: AsChan_def AsChan_task_def
        LoopUntil_sequence_content_panics [OF GetPage_three_pages]
        close_chan_def numeral_eq_Suc)


text \<open>
  With one call of \<^verbatim>\<open>cancel\<close>, made before the task runs its deferred calls or after
  them, the program never ends without a panic: \<^verbatim>\<open>done\<close> is closed by \<^verbatim>\<open>cancel\<close> and
  by the task's \<^verbatim>\<open>defer close(done)\<close>, and whichever comes second closes a closed
  channel. (The only other outcome is a task that never leaves \<^verbatim>\<open>GetPage\<close>.)
\<close>

lemma AsChan_single_cancel_never_finishes:
  "fst (AsChan pageable [] (Suc 0) w) \<noteq> Finished
   \<and> fst (AsChan pageable [Cancel] 0 w) \<noteq> Finished"
proof -
  let ?c = "\<lambda>acts. \<lparr>consumer_closed = False, done_closed = False, received = [],
              pending = acts, world = w\<rparr>"
  have a: "fst (AsChan pageable [] (Suc 0) w) \<noteq> Finished"
  proof -
    obtain r calls c' where L: "LoopUntil (with_channels pageable) AsChan_untilFunc (?c []) = (r, calls, c')"
      by (metis prod_cases3)
    then obtain w' where c': "c' = (?c [])\<lparr>world := w'\<rparr>"
      using LoopUntil_with_channels_world by blast
    show ?thesis
      by (cases r) (auto simp: AsChan_def AsChan_task_def L c' close_chan_def cancel_def
            split: outcome.splits)
  qed
  have b: "fst (AsChan pageable [Cancel] 0 w) \<noteq> Finished"
  proof -
    obtain r calls c' where L: "LoopUntil (with_channels pageable) AsChan_untilFunc (?c [Cancel]) = (r, calls, c')"
      by (metis prod_cases3)
    then obtain w' where c': "c' = (?c [Cancel])\<lparr>world := w'\<rparr>"
      using LoopUntil_with_channels_world by blast
    show ?thesis
      by (cases r) (auto simp: AsChan_def AsChan_task_def L c' close_chan_def cancel_def
            split: outcome.splits)
  qed
  show ?thesis using a b by simp
qed



text \<open>
  Claim C5 says that calling the cancel function exactly once, at any time, never closes a
  closed channel. Take a \<^verbatim>\<open>Pageable\<close> whose fetch fails, so that the task ends at once.
  Without any call of \<^verbatim>\<open>cancel\<close> the program ends normally. With one call after the task
  has ended, \<^verbatim>\<open>cancel\<close> closes the channel that the task's deferred \<^verbatim>\<open>close(done)\<close> has
  closed; with one call before, the deferred \<^verbatim>\<open>close(done)\<close> closes the channel that
  \<^verbatim>\<open>cancel\<close> has closed. Both panic.
\<close>

theorem AsChan_cancel_once:
  "AsChan (failing_Pageable (ExternalError ''down'')) [] 0 () =
     (Finished, [CallGetPage 1 10],
      \<lparr>consumer_closed = True, done_closed = True, received = [], pending = [], world = ()\<rparr>)
   \<and> AsChan (failing_Pageable (ExternalError ''down'')) [] 1 () =
     (Crashed [CloseOfClosedChannel], [CallGetPage 1 10],
      \<lparr>consumer_closed = True, done_closed = True, received = [], pending = [], world = ()\<rparr>)
   \<and> AsChan (failing_Pageable (ExternalError ''down'')) [Cancel] 0 () =
     (Crashed [CloseOfClosedChannel], [CallGetPage 1 10],
      \<lparr>consumer_closed = True, done_closed = True, received = [], pending = [], world = ()\<rparr>)"
  by (simp add: AsChan_def AsChan_task_def
        LoopUntil_failing_Pageable
        close_chan_def cancel_def)


section \<open>The claim about NextPage of package backend\<close>

text \<open>
  Claim C4 says that \<^verbatim>\<open>NextPage\<close> fetches the page numbered one above the given page's
  number, at the same size, so that repeated calls walk forward. Against the example
  server, \<^verbatim>\<open>NextPage\<close> of page 1 (size 2) sends the query \<^verbatim>\<open>page=1&limit=2\<close> and gets
  page 1 again; the page the claim describes is what \<^verbatim>\<open>GetPage\<close> with number 2 returns.
\<close>

theorem api_NextPage_fetches_same_page:
  "api_NextPage example_library example_api
       \<lparr>Num = 1, Size = 2, Total = 3, Content = VSlice [VInt 1, VInt 2]\<rparr> [] =
     (Returns (Some \<lparr>Num = 1, Size = 2, Total = 3, Content = VSlice [VInt 1, VInt 2]\<rparr>, None),
      [\<lparr>Verb = ''GET'',
        URL = \<lparr>Origin = ''https://engine.anexia-it.com'', Path = ''/backends'',
               Query = [(''page'', ''1''), (''limit'', ''2'')]\<rparr>\<rparr>])
   \<and> api_GetPage example_library example_api 2 2 [] =
     (Returns (Some \<lparr>Num = 2, Size = 2, Total = 3, Content = VSlice [VInt 3, VInt 4]\<rparr>, None),
      [\<lparr>Verb = ''GET'',
        URL = \<lparr>Origin = ''https://engine.anexia-it.com'', Path = ''/backends'',
               Query = [(''page'', ''2''), (''limit'', ''2'')]\<rparr>\<rparr>])"
  by (simp add: api_NextPage_def api_GetPage_def example_library_def example_api_def
        example_Do_def backend_table_def strconv_Itoa_def digit_char_def
        BackendPage_as_Page_def BackendPage_Num_def BackendPage_Size_def
        BackendPage_Total_def BackendPage_Content_def Let_def)


section \<open>The claim about New of package client\<close>












end
